theory Spec2Isabelle
  imports Complex_Main
begin

section \<open>The embedding page of the point-cloud explorer\<close>

text \<open>
  A shallow embedding of \<^verbatim>\<open>app/src/pages/embedding/EmbeddingPage.tsx\<close>: the
  normalisation of the UMAP response into the points handed to the point cloud, the
  variables of the UMAP query, the name of the cluster metric, and the handlers that
  write to the point-cloud store.

  The numbers of the response are only copied by this page, never computed with; they
  are modelled as \<^typ>\<open>real\<close>. The time value of a date is an integer of milliseconds.
  A \<^verbatim>\<open>throw\<close> is the left summand of a sum type.
\<close>

subsection \<open>Errors\<close>

text \<open>
  \<open>MalformedCoordinate msg\<close> is the \<^verbatim>\<open>new Error(msg)\<close> thrown by
  \<^verbatim>\<open>coordinatesToThreeDimensionalPoint\<close>; \<open>UnreachableMetricVariant\<close> is the abort
  of \<^verbatim>\<open>assertUnreachable\<close>; \<open>RangeError\<close> is what \<^verbatim>\<open>Date.prototype.toISOString\<close>
  throws on an invalid date.
\<close>

datatype error =
    MalformedCoordinate string
  | UnreachableMetricVariant string
  | RangeError

subsection \<open>The UMAP response\<close>

text \<open>
  The query selects \<^verbatim>\<open>__typename\<close> and, on \<^verbatim>\<open>Point3D\<close>, the fields x, y, z; on
  \<^verbatim>\<open>Point2D\<close>, x and y. A record of any other type carries its type name only, which
  the generated types write \<^verbatim>\<open>%other\<close>.

  Field names that are taken are prefixed: \<open>point_id\<close> and \<open>cluster_id\<close> are the \<^verbatim>\<open>id\<close> of
  a point and of a cluster, \<open>umap_data\<close> and \<open>umap_clusters\<close> the \<^verbatim>\<open>data\<close> and \<^verbatim>\<open>clusters\<close>
  of \<^verbatim>\<open>UMAPPoints\<close>, \<open>performanceMetric_values\<close> the \<^verbatim>\<open>performanceMetric\<close> of a cluster.
\<close>

datatype Coordinates =
    Point3D real real real
  | Point2D real real
  | OtherCoordinates

fun typename :: "Coordinates \<Rightarrow> string" where
  "typename (Point3D x y z) = ''Point3D''"
| "typename (Point2D x y) = ''Point2D''"
| "typename OtherCoordinates = ''%other''"

record EmbeddingMetadata =
  linkToData :: "string option"
  rawData :: "string option"

record EventMetadata =
  predictionId :: "string option"
  predictionLabel :: "string option"
  actualLabel :: "string option"
  predictionScore :: "real option"
  actualScore :: "real option"

record UMAPPointsEntry =
  point_id :: string
  eventId :: string
  coordinates :: Coordinates
  embeddingMetadata :: EmbeddingMetadata
  eventMetadata :: EventMetadata

record MetricValues =
  primaryValue :: "real option"
  referenceValue :: "real option"

record Cluster =
  cluster_id :: string
  eventIds :: "string list"
  driftRatio :: "real option"
  primaryToCorpusRatio :: "real option"
  dataQualityMetric :: "MetricValues option"
  performanceMetric_values :: "MetricValues option"

record ContextRetrieval =
  queryId :: string
  documentId :: string
  relevance :: real

record UMAPPoints =
  umap_data :: "UMAPPointsEntry list"
  referenceData :: "UMAPPointsEntry list"
  corpusData :: "UMAPPointsEntry list"
  umap_clusters :: "Cluster list"
  contextRetrievals :: "ContextRetrieval list"

record EmbeddingDimension =
  UMAPPoints :: "UMAPPoints option"

record UMAPQueryData =
  embedding :: "EmbeddingDimension option"

subsection \<open>The point normaliser\<close>

text \<open>What \<^verbatim>\<open>allSourceData\<close> maps every entry to: the entry, its position and its meta data.\<close>

record MetaData =
  metaData_id :: string

record Point = UMAPPointsEntry +
  position :: "real list"
  metaData :: MetaData

fun coordinatesToThreeDimensionalPoint :: "Coordinates \<Rightarrow> error + real list" where
  "coordinatesToThreeDimensionalPoint (Point3D x y z) = Inr [x, y, z]"
| "coordinatesToThreeDimensionalPoint c =
     Inl (MalformedCoordinate (''Expected Point3D but got '' @ typename c @ '' for coordinates''))"

text \<open>The callback of \<^verbatim>\<open>allData.map\<close>: the spread of \<open>d\<close> with two more fields.\<close>

definition toPoint :: "UMAPPointsEntry \<Rightarrow> error + Point" where
  "toPoint d =
     (case coordinatesToThreeDimensionalPoint (coordinates d) of
        Inl e \<Rightarrow> Inl e
      | Inr pos \<Rightarrow>
          Inr (UMAPPointsEntry.extend d
                 (Point.fields pos \<lparr>metaData_id = eventId d\<rparr>)))"

text \<open>\<^verbatim>\<open>Array.prototype.map\<close> with a callback that may throw: the first throw ends it.\<close>

fun mapE :: "('a \<Rightarrow> error + 'b) \<Rightarrow> 'a list \<Rightarrow> error + 'b list" where
  "mapE f [] = Inr []"
| "mapE f (a # as) =
     (case f a of
        Inl e \<Rightarrow> Inl e
      | Inr b \<Rightarrow> (case mapE f as of Inl e \<Rightarrow> Inl e | Inr bs \<Rightarrow> Inr (b # bs)))"

definition allSourceData ::
  "UMAPPointsEntry list \<Rightarrow> UMAPPointsEntry list \<Rightarrow> UMAPPointsEntry list \<Rightarrow> error + Point list"
where
  "allSourceData sourceData referenceSourceData corpusSourceData =
     (let allData = sourceData @ referenceSourceData @ corpusSourceData
      in mapE toPoint allData)"

text \<open>The arrays of the response, \<^verbatim>\<open>data.embedding?.UMAPPoints?.data ?? []\<close> and its like.\<close>

definition umapPointsOf :: "UMAPQueryData \<Rightarrow> UMAPPoints option" where
  "umapPointsOf data = (case embedding data of None \<Rightarrow> None | Some e \<Rightarrow> UMAPPoints e)"

definition sourceData :: "UMAPQueryData \<Rightarrow> UMAPPointsEntry list" where
  "sourceData data = (case umapPointsOf data of None \<Rightarrow> [] | Some u \<Rightarrow> umap_data u)"

definition referenceSourceData :: "UMAPQueryData \<Rightarrow> UMAPPointsEntry list" where
  "referenceSourceData data = (case umapPointsOf data of None \<Rightarrow> [] | Some u \<Rightarrow> referenceData u)"

definition corpusSourceData :: "UMAPQueryData \<Rightarrow> UMAPPointsEntry list" where
  "corpusSourceData data = (case umapPointsOf data of None \<Rightarrow> [] | Some u \<Rightarrow> corpusData u)"

definition contextRetrievalsOf :: "UMAPQueryData \<Rightarrow> ContextRetrieval list" where
  "contextRetrievalsOf data =
     (case umapPointsOf data of None \<Rightarrow> [] | Some u \<Rightarrow> contextRetrievals u)"

definition clustersOf :: "UMAPQueryData \<Rightarrow> Cluster list" where
  "clustersOf data = (case umapPointsOf data of None \<Rightarrow> [] | Some u \<Rightarrow> umap_clusters u)"

text \<open>
  The reading of the specification: a coordinate record is well-formed for a session of
  dimensionality \<open>n\<close> when its shape tag is the one of that dimensionality.
\<close>

definition spec_shape_matches_session :: "nat \<Rightarrow> Coordinates \<Rightarrow> bool" where
  "spec_shape_matches_session n c =
     ((n = 3 \<and> typename c = ''Point3D'') \<or> (n = 2 \<and> typename c = ''Point2D''))"

text \<open>The array an index of the flat sequence comes from.\<close>

datatype SourceSet = primary | reference | corpus

definition originOf :: "'a list \<Rightarrow> 'a list \<Rightarrow> 'a list \<Rightarrow> nat \<Rightarrow> SourceSet" where
  "originOf ps rs cs i =
     (if i < length ps then primary
      else if i < length ps + length rs then reference
      else corpus)"

subsection \<open>The metric definition and the name of the cluster metric\<close>

text \<open>
  \<^verbatim>\<open>MetricDefinition\<close> is a union tagged by \<^verbatim>\<open>type\<close>; the page reads \<^verbatim>\<open>metric.type\<close>,
  \<^verbatim>\<open>metric.metric\<close> and, of a data quality metric, \<^verbatim>\<open>metric.dimension.name\<close>. The metric
  enums are the strings they are at run time, so that the \<^verbatim>\<open>default\<close> branches of
  \<^verbatim>\<open>getClusterMetricName\<close> are branches of the model; \<open>otherMetricType t\<close> is a value
  whose tag \<open>t\<close> is none of the four, which the outer \<^verbatim>\<open>default\<close> receives.
\<close>

record Dimension =
  dimension_name :: string

datatype MetricDefinition =
    dataQuality Dimension
  | drift string
  | performance string
  | retrieval string
  | otherMetricType string

text \<open>
  Modelled from the spec: \<^verbatim>\<open>assertUnreachable\<close> of \<^verbatim>\<open>@phoenix/typeUtils\<close> is not among
  the sources. An unhandled variant or metric is a programmer error that fails fast
  (aborts); the call sites rely on it never returning.
\<close>

definition assertUnreachable :: "string \<Rightarrow> error + 'a" where
  "assertUnreachable v = Inl (UnreachableMetricVariant v)"

text \<open>
  \<^verbatim>\<open>getMetricShortNameByMetricKey\<close> of \<^verbatim>\<open>@phoenix/utils/metricFormatUtils\<close>, the table
  of short names, is a parameter.
\<close>

fun getClusterMetricName :: "(string \<Rightarrow> error + string) \<Rightarrow> MetricDefinition \<Rightarrow> error + string" where
  "getClusterMetricName getMetricShortNameByMetricKey (dataQuality dimension) =
     Inr (dimension_name dimension @ '' avg'')"
| "getClusterMetricName getMetricShortNameByMetricKey (drift metricEnum) =
     (if metricEnum = ''euclideanDistance'' then Inr ''Cluster Drift''
      else assertUnreachable metricEnum)"
| "getClusterMetricName getMetricShortNameByMetricKey (performance metricEnum) =
     getMetricShortNameByMetricKey metricEnum"
| "getClusterMetricName getMetricShortNameByMetricKey (retrieval metricEnum) =
     (if metricEnum = ''queryDistance'' then Inr ''% Query''
      else assertUnreachable metricEnum)"
| "getClusterMetricName getMetricShortNameByMetricKey (otherMetricType metricType) =
     assertUnreachable metricType"

subsection \<open>The time range and the variables of the UMAP query\<close>

record TimeRange =
  tr_start :: string
  tr_end :: string

text \<open>
  A \<^verbatim>\<open>Date\<close> holds a time value, the milliseconds since the epoch, or is an invalid date
  (\<open>None\<close>). The host gives the time zone, as the offset of local time from UTC at a UTC
  time and at a local time (\<^verbatim>\<open>LocalTZA(t, true)\<close> and \<^verbatim>\<open>LocalTZA(t, false)\<close> of ECMAScript),
  and \<^verbatim>\<open>new Date(string)\<close>.
\<close>

type_synonym Date = "int option"

record Host =
  LocalTZA_utc :: "int \<Rightarrow> int"
  LocalTZA_local :: "int \<Rightarrow> int"
  newDate :: "string \<Rightarrow> Date"

definition msPerDay :: int where
  "msPerDay = 86400000"

definition LocalTime :: "Host \<Rightarrow> int \<Rightarrow> int" where
  "LocalTime h t = t + LocalTZA_utc h t"

definition UTC :: "Host \<Rightarrow> int \<Rightarrow> int" where
  "UTC h t = t - LocalTZA_local h t"

definition TimeClip :: "int \<Rightarrow> Date" where
  "TimeClip t = (if \<bar>t\<bar> > 8640000000000000 then None else Some t)"

text \<open>
  \<^verbatim>\<open>addDays\<close> and \<^verbatim>\<open>subDays\<close> of date-fns: \<^verbatim>\<open>date.setDate(date.getDate() + amount)\<close> on a
  copy of the date, and the date itself when the amount is 0. \<^verbatim>\<open>setDate\<close> works on the
  local time: it moves the day of the month and keeps the time within the day, so the
  local time moves by \<open>amount\<close> days of 24 hours, and the result is that local time taken
  back to UTC and clipped to the range of time values.
\<close>

definition addDays :: "Host \<Rightarrow> Date \<Rightarrow> int \<Rightarrow> Date" where
  "addDays h date amount =
     (if amount = 0 then date
      else (case date of
              None \<Rightarrow> None
            | Some t \<Rightarrow> TimeClip (UTC h (LocalTime h t + amount * msPerDay))))"

definition subDays :: "Host \<Rightarrow> Date \<Rightarrow> int \<Rightarrow> Date" where
  "subDays h date amount = addDays h date (- amount)"

text \<open>
  \<^verbatim>\<open>Date.prototype.toISOString\<close>: the UTC date and time as
  \<^verbatim>\<open>YYYY-MM-DDTHH:mm:ss.sssZ\<close>, with a sign and six digits for a year outside 0 to 9999,
  and a \<^verbatim>\<open>RangeError\<close> on an invalid date. \<open>YearMonthDate\<close> is the civil date of a day
  number.
\<close>

definition digit :: "int \<Rightarrow> char" where
  "digit n = ''0123456789'' ! nat (n mod 10)"

definition pad2 :: "int \<Rightarrow> string" where
  "pad2 n = [digit (n div 10), digit n]"

definition pad3 :: "int \<Rightarrow> string" where
  "pad3 n = [digit (n div 100), digit (n div 10), digit n]"

definition pad4 :: "int \<Rightarrow> string" where
  "pad4 n = [digit (n div 1000), digit (n div 100), digit (n div 10), digit n]"

definition pad6 :: "int \<Rightarrow> string" where
  "pad6 n = [digit (n div 100000), digit (n div 10000), digit (n div 1000), digit (n div 100),
             digit (n div 10), digit n]"

definition YearMonthDate :: "int \<Rightarrow> int \<times> int \<times> int" where
  "YearMonthDate days =
     (let z = days + 719468;
          era = z div 146097;
          doe = z - era * 146097;
          yoe = (doe - doe div 1460 + doe div 36524 - doe div 146096) div 365;
          doy = doe - (365 * yoe + yoe div 4 - yoe div 100);
          mp = (5 * doy + 2) div 153;
          d = doy - (153 * mp + 2) div 5 + 1;
          m = (if mp < 10 then mp + 3 else mp - 9);
          y = yoe + era * 400 + (if m \<le> 2 then 1 else 0)
      in (y, m, d))"

definition isoYear :: "int \<Rightarrow> string" where
  "isoYear y =
     (if 0 \<le> y \<and> y \<le> 9999 then pad4 y
      else if y < 0 then CHR ''-'' # pad6 (- y)
      else CHR ''+'' # pad6 y)"

definition isoFormat :: "int \<Rightarrow> string" where
  "isoFormat t =
     (let days = t div msPerDay;
          ms = t mod msPerDay;
          (y, m, d) = YearMonthDate days
      in isoYear y @ ''-'' @ pad2 m @ ''-'' @ pad2 d @ ''T'' @
         pad2 (ms div 3600000) @ '':'' @ pad2 (ms div 60000 mod 60) @ '':'' @
         pad2 (ms div 1000 mod 60) @ ''.'' @ pad3 (ms mod 1000) @ ''Z'')"

definition toISOString :: "Date \<Rightarrow> error + string" where
  "toISOString date = (case date of None \<Rightarrow> Inl RangeError | Some t \<Rightarrow> Inr (isoFormat t))"

text \<open>
  The two memoised values \<^verbatim>\<open>endTime\<close> and \<^verbatim>\<open>timeRange\<close> of \<^verbatim>\<open>EmbeddingMain\<close>. The selected
  timestamp is null or a date. The object literal evaluates \<^verbatim>\<open>start\<close> first.
\<close>

definition EmbeddingMain_endTime :: "Host \<Rightarrow> Date option \<Rightarrow> string \<Rightarrow> Date" where
  "EmbeddingMain_endTime h selectedTimestamp primaryInferences_endTime =
     (case selectedTimestamp of
        Some d \<Rightarrow> d
      | None \<Rightarrow> newDate h primaryInferences_endTime)"

definition EmbeddingMain_timeRange :: "Host \<Rightarrow> Date \<Rightarrow> error + TimeRange" where
  "EmbeddingMain_timeRange h end_time =
     (case toISOString (subDays h end_time 2) of
        Inl e \<Rightarrow> Inl e
      | Inr s \<Rightarrow>
          (case toISOString end_time of
             Inl e \<Rightarrow> Inl e
           | Inr e \<Rightarrow> Inr \<lparr>tr_start = s, tr_end = e\<rparr>))"

record UMAPParameters =
  umap_minDist :: real
  umap_nNeighbors :: int
  umap_nSamples :: int

record HDBSCANParameters =
  hdbscan_minClusterSize :: int
  hdbscan_clusterMinSamples :: int
  hdbscan_clusterSelectionEpsilon :: real

record UMAPQueryVariables =
  var_id :: string
  timeRange :: TimeRange
  minDist :: real
  nNeighbors :: int
  nSamples :: int
  minClusterSize :: int
  clusterMinSamples :: int
  clusterSelectionEpsilon :: real
  fetchDataQualityMetric :: bool
  fetchPerformanceMetric :: bool
  dataQualityMetricColumnName :: "string option"
  performanceMetric :: string

text \<open>
  The first argument of \<^verbatim>\<open>loadQuery\<close> in the effect of \<^verbatim>\<open>EmbeddingMain\<close>. The fields
  of the two parameter records, which the object literal spreads into the variables,
  are prefixed; \<open>var_id\<close> is the variable \<^verbatim>\<open>id\<close>, \<open>tr_start\<close> and \<open>tr_end\<close> are \<^verbatim>\<open>start\<close> and
  \<^verbatim>\<open>end\<close> of the time range. The query declares \<^verbatim>\<open>$performanceMetric\<close> non-null.
\<close>

definition umapQueryVariables ::
  "string \<Rightarrow> TimeRange \<Rightarrow> UMAPParameters \<Rightarrow> HDBSCANParameters \<Rightarrow> MetricDefinition
     \<Rightarrow> UMAPQueryVariables"
where
  "umapQueryVariables embeddingDimensionId time_range umapParams hdbscanParams metric =
     \<lparr>var_id = embeddingDimensionId,
      timeRange = time_range,
      minDist = umap_minDist umapParams,
      nNeighbors = umap_nNeighbors umapParams,
      nSamples = umap_nSamples umapParams,
      minClusterSize = hdbscan_minClusterSize hdbscanParams,
      clusterMinSamples = hdbscan_clusterMinSamples hdbscanParams,
      clusterSelectionEpsilon = hdbscan_clusterSelectionEpsilon hdbscanParams,
      fetchDataQualityMetric = (case metric of dataQuality _ \<Rightarrow> True | _ \<Rightarrow> False),
      fetchPerformanceMetric = (case metric of performance _ \<Rightarrow> True | _ \<Rightarrow> False),
      dataQualityMetricColumnName =
        (case metric of dataQuality dimension \<Rightarrow> Some (dimension_name dimension) | _ \<Rightarrow> None),
      performanceMetric =
        (case metric of performance metricEnum \<Rightarrow> metricEnum | _ \<Rightarrow> ''accuracyScore'')\<rparr>"

text \<open>
  The reading of the specification: the metric enum is supplied for a performance metric
  and absent otherwise.
\<close>

definition spec_performanceMetric :: "MetricDefinition \<Rightarrow> string option" where
  "spec_performanceMetric metric =
     (case metric of performance metricEnum \<Rightarrow> Some metricEnum | _ \<Rightarrow> None)"

subsection \<open>The point-cloud store\<close>

datatype ClusterColorMode = defaultColorMode | highlightColorMode

text \<open>
  Modelled from the spec: the store of \<^verbatim>\<open>@phoenix/store\<close>, which the page reaches
  through \<^verbatim>\<open>usePointCloudContext\<close>, is not among the sources. Its record is the
  \<^verbatim>\<open>VisualizationState\<close> of the data model.
\<close>

record PointCloudState =
  points :: "Point list"
  clusters :: "Cluster list"
  retrievals :: "ContextRetrieval list"
  selectedClusterId :: "string option"
  selectedEventIds :: "string set"
  highlightedClusterId :: "string option"
  errorMessage :: "string option"
  loading :: bool
  colorMode :: ClusterColorMode
  metric :: MetricDefinition
  umapParameters :: UMAPParameters
  clusteringParameters :: HDBSCANParameters

text \<open>
  Modelled from the spec: the initial, empty state of the store, created once per
  session from the settings the provider is given.
\<close>

definition initialPointCloudState ::
  "MetricDefinition \<Rightarrow> UMAPParameters \<Rightarrow> HDBSCANParameters \<Rightarrow> PointCloudState"
where
  "initialPointCloudState m u h =
     \<lparr>points = [], clusters = [], retrievals = [],
      selectedClusterId = None, selectedEventIds = {}, highlightedClusterId = None,
      errorMessage = None, loading = False, colorMode = defaultColorMode,
      metric = m, umapParameters = u, clusteringParameters = h\<rparr>"

text \<open>
  Modelled from the spec: the mutator \<open>setInitialData\<close> of the store, which is not among
  the sources. It replaces points, clusters and retrievals in one step and clears
  \<open>loading\<close> and \<open>errorMessage\<close>.
\<close>

definition setInitialData ::
  "Point list \<Rightarrow> Cluster list \<Rightarrow> ContextRetrieval list \<Rightarrow> PointCloudState \<Rightarrow> PointCloudState"
where
  "setInitialData ps cs rs st =
     st\<lparr>points := ps, clusters := cs, retrievals := rs, loading := False, errorMessage := None\<rparr>"

text \<open>
  Modelled from the spec: the mutator \<open>reset\<close> of the store, which is not among the
  sources. It clears the data, the selection, the highlight, the error and \<open>loading\<close> back
  to the initial empty state; the settings (colour mode, metric, hyperparameters) stay, as
  the request assembled after it is derived from them.
\<close>

definition reset :: "PointCloudState \<Rightarrow> PointCloudState" where
  "reset st =
     st\<lparr>points := [], clusters := [], retrievals := [],
        selectedClusterId := None, selectedEventIds := {}, highlightedClusterId := None,
        errorMessage := None, loading := False\<rparr>"

text \<open>
  Modelled from the spec: the mutator \<open>setSelectedClusterId\<close> of the store, which is not among the
  sources; it sets \<open>selectedClusterId\<close>.
\<close>

definition setSelectedClusterId :: "string option \<Rightarrow> PointCloudState \<Rightarrow> PointCloudState" where
  "setSelectedClusterId v st = st\<lparr>selectedClusterId := v\<rparr>"

text \<open>
  Modelled from the spec: the mutator \<open>setSelectedEventIds\<close> of the store, which is not among the
  sources; it sets \<open>selectedEventIds\<close>.
\<close>

definition setSelectedEventIds :: "string set \<Rightarrow> PointCloudState \<Rightarrow> PointCloudState" where
  "setSelectedEventIds v st = st\<lparr>selectedEventIds := v\<rparr>"

text \<open>
  Modelled from the spec: the mutator \<open>setHighlightedClusterId\<close> of the store, which is not among the
  sources; it sets \<open>highlightedClusterId\<close>.
\<close>

definition setHighlightedClusterId :: "string option \<Rightarrow> PointCloudState \<Rightarrow> PointCloudState" where
  "setHighlightedClusterId v st = st\<lparr>highlightedClusterId := v\<rparr>"

text \<open>
  Modelled from the spec: the mutator \<open>setClusterColorMode\<close> of the store, which is not among the
  sources; it sets \<open>colorMode\<close>.
\<close>

definition setClusterColorMode :: "ClusterColorMode \<Rightarrow> PointCloudState \<Rightarrow> PointCloudState" where
  "setClusterColorMode v st = st\<lparr>colorMode := v\<rparr>"

text \<open>
  Modelled from the spec: the mutator \<open>setErrorMessage\<close> of the store, which is not among the
  sources; it sets \<open>errorMessage\<close>.
\<close>

definition setErrorMessage :: "string option \<Rightarrow> PointCloudState \<Rightarrow> PointCloudState" where
  "setErrorMessage v st = st\<lparr>errorMessage := v\<rparr>"

text \<open>
  Modelled from the spec: the mutator \<open>setLoading\<close> of the store, which is not among the
  sources; it sets \<open>loading\<close>.
\<close>

definition setLoading :: "bool \<Rightarrow> PointCloudState \<Rightarrow> PointCloudState" where
  "setLoading v st = st\<lparr>loading := v\<rparr>"

text \<open>
  Modelled from the spec: the getter \<open>getMetric\<close> of the store, which is not among the
  sources; it reads the active metric definition.
\<close>

definition getMetric :: "PointCloudState \<Rightarrow> MetricDefinition" where
  "getMetric st = metric st"

text \<open>
  Modelled from the spec: the getter \<open>getHDSCANParameters\<close> of the store, which is not among the
  sources; it reads the clustering parameters.
\<close>

definition getHDSCANParameters :: "PointCloudState \<Rightarrow> HDBSCANParameters" where
  "getHDSCANParameters st = clusteringParameters st"

subsection \<open>The handlers of the clusters panel\<close>

text \<open>
  \<^verbatim>\<open>onClick\<close>, \<^verbatim>\<open>onMouseEnter\<close> and \<^verbatim>\<open>onMouseLeave\<close> of the \<^verbatim>\<open>ClusterItem\<close> of a cluster,
  and \<^verbatim>\<open>onTabChange\<close>. The \<^verbatim>\<open>selectedClusterId\<close> a handler compares with is the one of
  the render it was created in, which is the store's when the event arrives.
\<close>

definition ClusterItem_onClick :: "Cluster \<Rightarrow> PointCloudState \<Rightarrow> PointCloudState" where
  "ClusterItem_onClick cluster st =
     (if selectedClusterId st \<noteq> Some (cluster_id cluster)
      then setSelectedEventIds (set (eventIds cluster))
             (setSelectedClusterId (Some (cluster_id cluster)) st)
      else setSelectedEventIds {} (setSelectedClusterId None st))"

definition ClusterItem_onMouseEnter :: "Cluster \<Rightarrow> PointCloudState \<Rightarrow> PointCloudState" where
  "ClusterItem_onMouseEnter cluster st = setHighlightedClusterId (Some (cluster_id cluster)) st"

definition ClusterItem_onMouseLeave :: "PointCloudState \<Rightarrow> PointCloudState" where
  "ClusterItem_onMouseLeave st = setHighlightedClusterId None st"

definition onTabChange :: "string \<Rightarrow> PointCloudState \<Rightarrow> PointCloudState" where
  "onTabChange key st =
     (if key = ''configuration'' then setClusterColorMode highlightColorMode st
      else setClusterColorMode defaultColorMode st)"

text \<open>The \<^verbatim>\<open>Dismiss\<close> action of \<^verbatim>\<open>PointCloudNotifications\<close>.\<close>

definition dismissError :: "PointCloudState \<Rightarrow> PointCloudState" where
  "dismissError st = setErrorMessage None st"

subsection \<open>The request lifecycle\<close>

text \<open>
  The state the page holds beside the store: the \<^verbatim>\<open>queryReference\<close> of
  \<^verbatim>\<open>useQueryLoader\<close> (react-relay). A reference is the number of its request; \<open>issued\<close>
  logs the variables of every request sent (the fetch policy is \<^verbatim>\<open>network-only\<close>, so
  every \<^verbatim>\<open>loadQuery\<close> sends one) and \<open>disposed\<close> the references disposed of, in order.
  By the contract of the hook, \<^verbatim>\<open>loadQuery\<close> makes a new reference the current one,
  disposing of the previous one if there is one, and \<^verbatim>\<open>disposeQuery\<close> disposes of the
  current reference and sets it to null.
\<close>

record Page =
  store :: PointCloudState
  queryReference :: "nat option"
  issued :: "UMAPQueryVariables list"
  disposed :: "nat list"

definition initialPage :: "PointCloudState \<Rightarrow> Page" where
  "initialPage st = \<lparr>store = st, queryReference = None, issued = [], disposed = []\<rparr>"

definition disposeQuery :: "Page \<Rightarrow> Page" where
  "disposeQuery s =
     (case queryReference s of
        None \<Rightarrow> s
      | Some r \<Rightarrow> s\<lparr>queryReference := None, disposed := disposed s @ [r]\<rparr>)"

definition loadQuery :: "UMAPQueryVariables \<Rightarrow> Page \<Rightarrow> Page" where
  "loadQuery variables s =
     (let s' = disposeQuery s
      in s'\<lparr>queryReference := Some (length (issued s')), issued := issued s' @ [variables]\<rparr>)"

text \<open>
  The effect of \<^verbatim>\<open>EmbeddingMain\<close> and its cleanup. \<^verbatim>\<open>umapParameters\<close> is the value of the
  render; \<^verbatim>\<open>getMetric\<close> and \<^verbatim>\<open>getHDSCANParameters\<close> read the store when they are called.
\<close>

definition EmbeddingMain_effect :: "string \<Rightarrow> TimeRange \<Rightarrow> Page \<Rightarrow> Page" where
  "EmbeddingMain_effect embeddingDimensionId time_range s =
     (let umapParams = umapParameters (store s);
          st1 = reset (store s);
          st2 = setLoading True st1;
          m = getMetric st2
      in loadQuery
           (umapQueryVariables embeddingDimensionId time_range umapParams
              (getHDSCANParameters st2) m)
           (s\<lparr>store := st2\<rparr>))"

definition EmbeddingMain_cleanup :: "Page \<Rightarrow> Page" where
  "EmbeddingMain_cleanup s = disposeQuery s"

text \<open>
  The effect of \<^verbatim>\<open>PointCloudDisplay\<close> on the data of its query reference. A throw while
  rendering (\<^verbatim>\<open>allSourceData\<close>) leaves the effect unrun.
\<close>

definition PointCloudDisplay_effect :: "UMAPQueryData \<Rightarrow> PointCloudState \<Rightarrow> error + PointCloudState" where
  "PointCloudDisplay_effect data st =
     (case allSourceData (sourceData data) (referenceSourceData data) (corpusSourceData data) of
        Inl e \<Rightarrow> Inl e
      | Inr all_points \<Rightarrow>
          Inr (setInitialData all_points (clustersOf data) (contextRetrievalsOf data) st))"

text \<open>
  The events of a session. \<open>Requery\<close> is a render of \<^verbatim>\<open>EmbeddingMain\<close> with a changed
  dependency of the effect: it carries the embedding dimension id, the selected timestamp
  and the end time of the primary inferences, from which the render computes the time
  range. When the time range throws, the render fails and no effect runs; otherwise React
  runs the cleanup of the previous run, which finds no reference on the first run, and
  then the effect with the time range computed. \<open>Teardown\<close> is the unmount, which runs the
  cleanup only.

  \<open>ResponseArrives r data\<close> and \<open>RequestFails r msg\<close> are the outcomes of request \<open>r\<close>.
  \<^verbatim>\<open>PointCloudDisplay\<close> is rendered for the current query reference only and reads the
  data of that reference, so the response of any other request reaches no effect. A
  failure is rethrown by \<^verbatim>\<open>usePreloadedQuery\<close> while rendering; nothing on the page catches
  it and no mutator of the store is called.

  \<open>StoreWrite f\<close> is a write to the store by a component that is not on this page.
\<close>

datatype event =
    Requery string "Date option" string
  | Teardown
  | ResponseArrives nat UMAPQueryData
  | RequestFails nat string
  | ClusterClick Cluster
  | ClusterMouseEnter Cluster
  | ClusterMouseLeave
  | TabChange string
  | DismissError
  | StoreWrite "PointCloudState \<Rightarrow> PointCloudState"

fun step :: "Host \<Rightarrow> event \<Rightarrow> Page \<Rightarrow> Page" where
  "step h (Requery embeddingDimensionId selectedTimestamp primaryInferences_endTime) s =
     (case EmbeddingMain_timeRange h
             (EmbeddingMain_endTime h selectedTimestamp primaryInferences_endTime) of
        Inl e \<Rightarrow> s
      | Inr time_range \<Rightarrow>
          EmbeddingMain_effect embeddingDimensionId time_range (EmbeddingMain_cleanup s))"
| "step h Teardown s = EmbeddingMain_cleanup s"
| "step h (ResponseArrives r data) s =
     (if queryReference s = Some r
      then (case PointCloudDisplay_effect data (store s) of
              Inl e \<Rightarrow> s
            | Inr st \<Rightarrow> s\<lparr>store := st\<rparr>)
      else s)"
| "step h (RequestFails r msg) s = s"
| "step h (ClusterClick cluster) s = s\<lparr>store := ClusterItem_onClick cluster (store s)\<rparr>"
| "step h (ClusterMouseEnter cluster) s = s\<lparr>store := ClusterItem_onMouseEnter cluster (store s)\<rparr>"
| "step h ClusterMouseLeave s = s\<lparr>store := ClusterItem_onMouseLeave (store s)\<rparr>"
| "step h (TabChange key) s = s\<lparr>store := onTabChange key (store s)\<rparr>"
| "step h DismissError s = s\<lparr>store := dismissError (store s)\<rparr>"
| "step h (StoreWrite f) s = s\<lparr>store := f (store s)\<rparr>"

definition run :: "Host \<Rightarrow> Page \<Rightarrow> event list \<Rightarrow> Page" where
  "run h s evs = fold (step h) evs s"

text \<open>
  At most one request is outstanding: every request sent is the current one or has been
  disposed of.
\<close>

definition current_or_disposed :: "Page \<Rightarrow> bool" where
  "current_or_disposed s \<longleftrightarrow>
     (\<forall>r < length (issued s). queryReference s = Some r \<or> r \<in> set (disposed s))"

section \<open>Properties of the point normaliser\<close>

lemma mapE_Inr_iff:
  "(\<exists>bs. mapE f as = Inr bs) \<longleftrightarrow> (\<forall>a \<in> set as. \<exists>b. f a = Inr b)"
  by (induction as) (auto split: sum.splits)

lemma mapE_Inr_length: "mapE f as = Inr bs \<Longrightarrow> length bs = length as"
  by (induction as arbitrary: bs) (auto split: sum.splits)

lemma coordinates_Inr_iff:
  "(\<exists>pos. coordinatesToThreeDimensionalPoint c = Inr pos) \<longleftrightarrow> typename c = ''Point3D''"
  by (cases c) auto

lemma toPoint_Inr_iff: "(\<exists>p. toPoint d = Inr p) \<longleftrightarrow> typename (coordinates d) = ''Point3D''"
  using coordinates_Inr_iff [of "coordinates d"]
  by (auto simp: toPoint_def split: sum.splits)

lemma toPoint_Inr_fields:
  assumes "toPoint d = Inr p"
  shows "UMAPPointsEntry.truncate p = d"
    and "metaData_id (metaData p) = eventId d"
    and "coordinatesToThreeDimensionalPoint (coordinates d) = Inr (position p)"
  using assms
  by (auto simp: toPoint_def UMAPPointsEntry.truncate_def UMAPPointsEntry.extend_def
      Point.fields_def split: sum.splits)

lemma mapE_Inl_witness:
  "mapE f as = Inl e \<Longrightarrow> \<exists>a \<in> set as. f a = Inl e"
  by (induction as) (auto split: sum.splits)

lemma toPoint_Inl:
  "toPoint d = Inl e \<Longrightarrow>
     typename (coordinates d) \<noteq> ''Point3D'' \<and>
     e = MalformedCoordinate (''Expected Point3D but got '' @ typename (coordinates d) @ '' for coordinates'')"
  by (cases "coordinates d") (auto simp: toPoint_def split: sum.splits)

lemma allSourceData_Inl_iff:
  "(\<exists>e. allSourceData ps rs cs = Inl e) \<longleftrightarrow>
     (\<exists>d \<in> set (ps @ rs @ cs). typename (coordinates d) \<noteq> ''Point3D'')"
proof -
  have "(\<exists>e. allSourceData ps rs cs = Inl e) \<longleftrightarrow> \<not> (\<exists>out. allSourceData ps rs cs = Inr out)"
    by (cases "allSourceData ps rs cs") auto
  also have "\<dots> \<longleftrightarrow> \<not> (\<forall>d \<in> set (ps @ rs @ cs). \<exists>p. toPoint d = Inr p)"
    unfolding allSourceData_def Let_def mapE_Inr_iff ..
  also have "\<dots> \<longleftrightarrow> (\<exists>d \<in> set (ps @ rs @ cs). typename (coordinates d) \<noteq> ''Point3D'')"
    unfolding toPoint_Inr_iff by blast
  finally show ?thesis .
qed

text \<open>
  Claim C1, as amended. The normaliser takes no session dimensionality. It accepts a
  coordinate record exactly when its shape tag is \<^verbatim>\<open>Point3D\<close>, and the position of a
  \<^verbatim>\<open>Point3D\<close> record \<open>{x, y, z}\<close> is \<open>[x, y, z]\<close>; the flat sequence is refused exactly when
  one of the three arrays holds a record of another shape, with the error
  \<^verbatim>\<open>Expected Point3D but got <tag> for coordinates\<close> of such a record.
\<close>

theorem normalizer_accepts_exactly_Point3D:
  "coordinatesToThreeDimensionalPoint (Point3D x y z) = Inr [x, y, z] \<and>
   ((\<exists>e. coordinatesToThreeDimensionalPoint c = Inl e) \<longleftrightarrow> typename c \<noteq> ''Point3D'') \<and>
   ((\<exists>e. allSourceData ps rs cs = Inl e) \<longleftrightarrow>
      (\<exists>d \<in> set (ps @ rs @ cs). typename (coordinates d) \<noteq> ''Point3D'')) \<and>
   (allSourceData ps rs cs = Inl e \<longrightarrow>
      (\<exists>d \<in> set (ps @ rs @ cs). typename (coordinates d) \<noteq> ''Point3D'' \<and>
         e = MalformedCoordinate
               (''Expected Point3D but got '' @ typename (coordinates d) @ '' for coordinates'')))"
proof (intro conjI impI)
  show "coordinatesToThreeDimensionalPoint (Point3D x y z) = Inr [x, y, z]" by simp
  show "(\<exists>e. coordinatesToThreeDimensionalPoint c = Inl e) \<longleftrightarrow> typename c \<noteq> ''Point3D''"
    by (cases c) auto
  show "(\<exists>e. allSourceData ps rs cs = Inl e) \<longleftrightarrow>
      (\<exists>d \<in> set (ps @ rs @ cs). typename (coordinates d) \<noteq> ''Point3D'')"
    by (rule allSourceData_Inl_iff)
next
  assume "allSourceData ps rs cs = Inl e"
  then obtain d where "d \<in> set (ps @ rs @ cs)" "toPoint d = Inl e"
    unfolding allSourceData_def Let_def by (blast dest: mapE_Inl_witness)
  then show "\<exists>d \<in> set (ps @ rs @ cs). typename (coordinates d) \<noteq> ''Point3D'' \<and>
         e = MalformedCoordinate
               (''Expected Point3D but got '' @ typename (coordinates d) @ '' for coordinates'')"
    using toPoint_Inl by blast
qed

text \<open>The theorem at a response with a \<^verbatim>\<open>Point2D\<close> record in the reference array.\<close>

theorem normalizer_accepts_exactly_Point3D_witness:
  "allSourceData
     [\<lparr>point_id = ''p1'', eventId = ''e1'', coordinates = Point3D 1 2 3,
       embeddingMetadata = \<lparr>linkToData = None, rawData = None\<rparr>,
       eventMetadata = \<lparr>predictionId = None, predictionLabel = None, actualLabel = None,
                        predictionScore = None, actualScore = None\<rparr>\<rparr>]
     [\<lparr>point_id = ''p2'', eventId = ''e2'', coordinates = Point2D 4 5,
       embeddingMetadata = \<lparr>linkToData = None, rawData = None\<rparr>,
       eventMetadata = \<lparr>predictionId = None, predictionLabel = None, actualLabel = None,
                        predictionScore = None, actualScore = None\<rparr>\<rparr>]
     []
   = Inl (MalformedCoordinate ''Expected Point3D but got Point2D for coordinates'')"
  using normalizer_accepts_exactly_Point3D
    [of 1 2 3 "Point2D 4 5"
        "[\<lparr>point_id = ''p1'', eventId = ''e1'', coordinates = Point3D 1 2 3,
       embeddingMetadata = \<lparr>linkToData = None, rawData = None\<rparr>,
       eventMetadata = \<lparr>predictionId = None, predictionLabel = None, actualLabel = None,
                        predictionScore = None, actualScore = None\<rparr>\<rparr>]"
        "[\<lparr>point_id = ''p2'', eventId = ''e2'', coordinates = Point2D 4 5,
       embeddingMetadata = \<lparr>linkToData = None, rawData = None\<rparr>,
       eventMetadata = \<lparr>predictionId = None, predictionLabel = None, actualLabel = None,
                        predictionScore = None, actualScore = None\<rparr>\<rparr>]"
        "[]"
        "MalformedCoordinate ''Expected Point3D but got Point2D for coordinates''"]
  by (simp add: allSourceData_def toPoint_def)

text \<open>
  Claim C1 as stated fails: a \<^verbatim>\<open>Point2D\<close> record is well-formed for a session of
  dimensionality 2 and is refused, and a \<^verbatim>\<open>Point3D\<close> record is not and is accepted.
\<close>

theorem normalizer_session_counterexample:
  "spec_shape_matches_session 2 (Point2D 1 2) \<and>
   allSourceData
     [\<lparr>point_id = ''p1'', eventId = ''e1'', coordinates = Point2D 1 2,
       embeddingMetadata = \<lparr>linkToData = None, rawData = None\<rparr>,
       eventMetadata = \<lparr>predictionId = None, predictionLabel = None, actualLabel = None,
                        predictionScore = None, actualScore = None\<rparr>\<rparr>] [] []
     = Inl (MalformedCoordinate ''Expected Point3D but got Point2D for coordinates'') \<and>
   \<not> spec_shape_matches_session 2 (Point3D 1 2 3) \<and>
   coordinatesToThreeDimensionalPoint (Point3D 1 2 3) = Inr [1, 2, 3]"
  by (simp add: spec_shape_matches_session_def allSourceData_def toPoint_def)

section \<open>The flat sequence of points\<close>

lemma mapE_Inr_map:
  "mapE f as = Inr bs \<Longrightarrow> (\<And>a b. f a = Inr b \<Longrightarrow> g b = a) \<Longrightarrow> map g bs = as"
  by (induction as arbitrary: bs) (auto split: sum.splits)

lemma mapE_Inr_set:
  "mapE f as = Inr bs \<Longrightarrow> b \<in> set bs \<Longrightarrow> \<exists>a \<in> set as. f a = Inr b"
  by (induction as arbitrary: bs) (auto split: sum.splits)

lemma nth_three_arrays:
  "i < length ps + length rs + length cs \<Longrightarrow>
   (ps @ rs @ cs) ! i =
     (case originOf ps rs cs i of
        primary \<Rightarrow> ps ! i
      | reference \<Rightarrow> rs ! (i - length ps)
      | corpus \<Rightarrow> cs ! (i - length ps - length rs))"
  by (auto simp: originOf_def nth_append)

text \<open>
  Claim C2, as amended. For every response whose coordinate records are all \<^verbatim>\<open>Point3D\<close>,
  the normaliser returns a sequence as long as the three arrays together, whose points
  are the entries of the primary, the reference and the corpus array in this order, each
  with its position and with \<^verbatim>\<open>metaData.id\<close> its event id. A point carries no field for
  the array it comes from: its origin is its index.
\<close>

theorem allSourceData_length_and_order:
  assumes "\<forall>d \<in> set (ps @ rs @ cs). typename (coordinates d) = ''Point3D''"
  shows "\<exists>out. allSourceData ps rs cs = Inr out \<and>
           length out = length ps + length rs + length cs \<and>
           map UMAPPointsEntry.truncate out = ps @ rs @ cs \<and>
           (\<forall>i < length out.
              UMAPPointsEntry.truncate (out ! i) =
                (case originOf ps rs cs i of
                   primary \<Rightarrow> ps ! i
                 | reference \<Rightarrow> rs ! (i - length ps)
                 | corpus \<Rightarrow> cs ! (i - length ps - length rs))) \<and>
           (\<forall>p \<in> set out.
              metaData_id (metaData p) = eventId p \<and>
              coordinatesToThreeDimensionalPoint (coordinates p) = Inr (position p))"
proof -
  from assms have "\<forall>d \<in> set (ps @ rs @ cs). \<exists>p. toPoint d = Inr p"
    by (simp only: toPoint_Inr_iff)
  then obtain out where out: "mapE toPoint (ps @ rs @ cs) = Inr out"
    using mapE_Inr_iff [of toPoint "ps @ rs @ cs"] by blast
  have len: "length out = length ps + length rs + length cs"
    using mapE_Inr_length [OF out] by simp
  have trunc: "map UMAPPointsEntry.truncate out = ps @ rs @ cs"
    using out by (rule mapE_Inr_map) (rule toPoint_Inr_fields(1))
  have nth: "UMAPPointsEntry.truncate (out ! i) =
                (case originOf ps rs cs i of
                   primary \<Rightarrow> ps ! i
                 | reference \<Rightarrow> rs ! (i - length ps)
                 | corpus \<Rightarrow> cs ! (i - length ps - length rs))" if "i < length out" for i
  proof -
    have "UMAPPointsEntry.truncate (out ! i) = map UMAPPointsEntry.truncate out ! i"
      using that by simp
    also have "\<dots> = (ps @ rs @ cs) ! i" by (simp only: trunc)
    finally show ?thesis using that len by (simp only: nth_three_arrays)
  qed
  have fields: "metaData_id (metaData p) = eventId p \<and>
      coordinatesToThreeDimensionalPoint (coordinates p) = Inr (position p)" if "p \<in> set out" for p
  proof -
    from mapE_Inr_set [OF out that] obtain d where d: "toPoint d = Inr p" by blast
    have "UMAPPointsEntry.truncate p = d" using d by (rule toPoint_Inr_fields(1))
    then have "eventId p = eventId d" "coordinates p = coordinates d"
      by (auto simp: UMAPPointsEntry.truncate_def)
    then show ?thesis using toPoint_Inr_fields(2,3) [OF d] by simp
  qed
  show ?thesis
    unfolding allSourceData_def Let_def using out len trunc nth fields by blast
qed

text \<open>The theorem at a response with one primary and one corpus point.\<close>

theorem allSourceData_length_and_order_witness:
  "\<exists>out. allSourceData
      [\<lparr>point_id = ''p1'', eventId = ''e1'', coordinates = Point3D 1 2 3,
        embeddingMetadata = \<lparr>linkToData = None, rawData = None\<rparr>,
        eventMetadata = \<lparr>predictionId = None, predictionLabel = None, actualLabel = None,
                         predictionScore = None, actualScore = None\<rparr>\<rparr>]
      []
      [\<lparr>point_id = ''p2'', eventId = ''e2'', coordinates = Point3D 4 5 6,
        embeddingMetadata = \<lparr>linkToData = None, rawData = None\<rparr>,
        eventMetadata = \<lparr>predictionId = None, predictionLabel = None, actualLabel = None,
                         predictionScore = None, actualScore = None\<rparr>\<rparr>] = Inr out \<and>
     length out = 2 \<and>
     UMAPPointsEntry.truncate (out ! 1) =
       \<lparr>point_id = ''p2'', eventId = ''e2'', coordinates = Point3D 4 5 6,
        embeddingMetadata = \<lparr>linkToData = None, rawData = None\<rparr>,
        eventMetadata = \<lparr>predictionId = None, predictionLabel = None, actualLabel = None,
                         predictionScore = None, actualScore = None\<rparr>\<rparr>"
  (is "\<exists>out. allSourceData ?ps ?rs ?cs = Inr out \<and> _ \<and> _")
proof -
  have valid: "\<forall>d \<in> set (?ps @ ?rs @ ?cs). typename (coordinates d) = ''Point3D''"
    by simp
  from allSourceData_length_and_order [OF valid]
  obtain out where out: "allSourceData ?ps ?rs ?cs = Inr out"
    and len: "length out = length ?ps + length ?rs + length ?cs"
    and nth: "\<forall>i < length out.
              UMAPPointsEntry.truncate (out ! i) =
                (case originOf ?ps ?rs ?cs i of
                   primary \<Rightarrow> ?ps ! i
                 | reference \<Rightarrow> ?rs ! (i - length ?ps)
                 | corpus \<Rightarrow> ?cs ! (i - length ?ps - length ?rs))"
    by blast
  from len have len2: "length out = 2" by simp
  then have "1 < length out" by simp
  from nth [rule_format, OF this]
  have "UMAPPointsEntry.truncate (out ! 1) = ?cs ! 0"
    by (simp add: originOf_def)
  with out len2 show ?thesis by simp
qed

text \<open>
  Claim C2 as stated fails: the same entry in the primary and in the reference array
  gives the same point twice, so nothing in a point identifies its array.
\<close>

theorem allSourceData_sourceSet_counterexample:
  "allSourceData
      [\<lparr>point_id = ''p1'', eventId = ''e1'', coordinates = Point3D 1 2 3,
        embeddingMetadata = \<lparr>linkToData = None, rawData = None\<rparr>,
        eventMetadata = \<lparr>predictionId = None, predictionLabel = None, actualLabel = None,
                         predictionScore = None, actualScore = None\<rparr>\<rparr>]
      [\<lparr>point_id = ''p1'', eventId = ''e1'', coordinates = Point3D 1 2 3,
        embeddingMetadata = \<lparr>linkToData = None, rawData = None\<rparr>,
        eventMetadata = \<lparr>predictionId = None, predictionLabel = None, actualLabel = None,
                         predictionScore = None, actualScore = None\<rparr>\<rparr>]
      []
    = Inr [\<lparr>point_id = ''p1'', eventId = ''e1'', coordinates = Point3D 1 2 3,
            embeddingMetadata = \<lparr>linkToData = None, rawData = None\<rparr>,
            eventMetadata = \<lparr>predictionId = None, predictionLabel = None, actualLabel = None,
                             predictionScore = None, actualScore = None\<rparr>,
            position = [1, 2, 3], metaData = \<lparr>metaData_id = ''e1''\<rparr>\<rparr>,
           \<lparr>point_id = ''p1'', eventId = ''e1'', coordinates = Point3D 1 2 3,
            embeddingMetadata = \<lparr>linkToData = None, rawData = None\<rparr>,
            eventMetadata = \<lparr>predictionId = None, predictionLabel = None, actualLabel = None,
                             predictionScore = None, actualScore = None\<rparr>,
            position = [1, 2, 3], metaData = \<lparr>metaData_id = ''e1''\<rparr>\<rparr>] \<and>
   originOf [''p1''] [''p1''] ([] :: string list) 0 = primary \<and>
   originOf [''p1''] [''p1''] ([] :: string list) 1 = reference"
  by (simp add: allSourceData_def toPoint_def originOf_def UMAPPointsEntry.extend_def Point.fields_def)

section \<open>The variables of the UMAP query\<close>

text \<open>
  Claim C3, as amended. For every metric definition, \<open>fetchDataQualityMetric\<close> is true
  iff the variant is \<open>dataQuality\<close>, and then the column name is the name of the variant's
  dimension, otherwise it is absent; \<open>fetchPerformanceMetric\<close> is true iff the variant is
  \<open>performance\<close>, and then \<open>performanceMetric\<close> is the variant's metric, otherwise it is the
  fallback \<^verbatim>\<open>accuracyScore\<close> (the variable is never absent). Every other variant sets both
  flags false.
\<close>

theorem umapQueryVariables_metric_flags:
  "(fetchDataQualityMetric (umapQueryVariables i t u h m) \<longleftrightarrow> (\<exists>d. m = dataQuality d)) \<and>
   (\<forall>d. m = dataQuality d \<longrightarrow>
      dataQualityMetricColumnName (umapQueryVariables i t u h m) = Some (dimension_name d)) \<and>
   ((\<nexists>d. m = dataQuality d) \<longrightarrow>
      dataQualityMetricColumnName (umapQueryVariables i t u h m) = None) \<and>
   (fetchPerformanceMetric (umapQueryVariables i t u h m) \<longleftrightarrow> (\<exists>k. m = performance k)) \<and>
   (\<forall>k. m = performance k \<longrightarrow> performanceMetric (umapQueryVariables i t u h m) = k) \<and>
   ((\<nexists>k. m = performance k) \<longrightarrow>
      performanceMetric (umapQueryVariables i t u h m) = ''accuracyScore'')"
  by (cases m) (simp_all add: umapQueryVariables_def)

text \<open>The theorem at a data quality metric and at a drift metric.\<close>

theorem umapQueryVariables_metric_flags_witness:
  "fetchDataQualityMetric
     (umapQueryVariables ''dim'' \<lparr>tr_start = ''a'', tr_end = ''b''\<rparr>
        \<lparr>umap_minDist = 0, umap_nNeighbors = 30, umap_nSamples = 500\<rparr>
        \<lparr>hdbscan_minClusterSize = 10, hdbscan_clusterMinSamples = 1,
         hdbscan_clusterSelectionEpsilon = 0\<rparr>
        (dataQuality \<lparr>dimension_name = ''age''\<rparr>)) \<and>
   dataQualityMetricColumnName
     (umapQueryVariables ''dim'' \<lparr>tr_start = ''a'', tr_end = ''b''\<rparr>
        \<lparr>umap_minDist = 0, umap_nNeighbors = 30, umap_nSamples = 500\<rparr>
        \<lparr>hdbscan_minClusterSize = 10, hdbscan_clusterMinSamples = 1,
         hdbscan_clusterSelectionEpsilon = 0\<rparr>
        (dataQuality \<lparr>dimension_name = ''age''\<rparr>)) = Some ''age'' \<and>
   \<not> fetchPerformanceMetric
     (umapQueryVariables ''dim'' \<lparr>tr_start = ''a'', tr_end = ''b''\<rparr>
        \<lparr>umap_minDist = 0, umap_nNeighbors = 30, umap_nSamples = 500\<rparr>
        \<lparr>hdbscan_minClusterSize = 10, hdbscan_clusterMinSamples = 1,
         hdbscan_clusterSelectionEpsilon = 0\<rparr>
        (dataQuality \<lparr>dimension_name = ''age''\<rparr>)) \<and>
   performanceMetric
     (umapQueryVariables ''dim'' \<lparr>tr_start = ''a'', tr_end = ''b''\<rparr>
        \<lparr>umap_minDist = 0, umap_nNeighbors = 30, umap_nSamples = 500\<rparr>
        \<lparr>hdbscan_minClusterSize = 10, hdbscan_clusterMinSamples = 1,
         hdbscan_clusterSelectionEpsilon = 0\<rparr>
        (dataQuality \<lparr>dimension_name = ''age''\<rparr>)) = ''accuracyScore''"
  using umapQueryVariables_metric_flags
    [of "''dim''" "\<lparr>tr_start = ''a'', tr_end = ''b''\<rparr>"
        "\<lparr>umap_minDist = 0, umap_nNeighbors = 30, umap_nSamples = 500\<rparr>"
        "\<lparr>hdbscan_minClusterSize = 10, hdbscan_clusterMinSamples = 1,
         hdbscan_clusterSelectionEpsilon = 0\<rparr>"
        "dataQuality \<lparr>dimension_name = ''age''\<rparr>"]
  by simp

text \<open>
  Claim C3 as stated fails: for a drift metric the specification has no performance
  metric among the variables, and the page sends \<^verbatim>\<open>accuracyScore\<close>.
\<close>

theorem performanceMetric_absent_counterexample:
  "spec_performanceMetric (drift ''euclideanDistance'') = None \<and>
   performanceMetric
     (umapQueryVariables ''dim'' \<lparr>tr_start = ''a'', tr_end = ''b''\<rparr>
        \<lparr>umap_minDist = 0, umap_nNeighbors = 30, umap_nSamples = 500\<rparr>
        \<lparr>hdbscan_minClusterSize = 10, hdbscan_clusterMinSamples = 1,
         hdbscan_clusterSelectionEpsilon = 0\<rparr>
        (drift ''euclideanDistance'')) = ''accuracyScore'' \<and>
   \<not> fetchPerformanceMetric
     (umapQueryVariables ''dim'' \<lparr>tr_start = ''a'', tr_end = ''b''\<rparr>
        \<lparr>umap_minDist = 0, umap_nNeighbors = 30, umap_nSamples = 500\<rparr>
        \<lparr>hdbscan_minClusterSize = 10, hdbscan_clusterMinSamples = 1,
         hdbscan_clusterSelectionEpsilon = 0\<rparr>
        (drift ''euclideanDistance''))"
  by (simp add: spec_performanceMetric_def umapQueryVariables_def)

section \<open>The name of the cluster metric\<close>

text \<open>
  Claim C9. \<open>dataQuality\<close> of a dimension \<open>name\<close> is named \<open>name avg\<close>, \<open>drift\<close> of
  \<^verbatim>\<open>euclideanDistance\<close> \<^verbatim>\<open>Cluster Drift\<close>, \<open>performance\<close> of a metric what the table of short
  names gives for it, \<open>retrieval\<close> of \<^verbatim>\<open>queryDistance\<close> \<^verbatim>\<open>% Query\<close>; every other variant or
  metric aborts, and no name is returned outside these four cases.
\<close>

theorem getClusterMetricName_labels:
  "getClusterMetricName shortName (dataQuality d) = Inr (dimension_name d @ '' avg'') \<and>
   getClusterMetricName shortName (drift ''euclideanDistance'') = Inr ''Cluster Drift'' \<and>
   getClusterMetricName shortName (performance k) = shortName k \<and>
   getClusterMetricName shortName (retrieval ''queryDistance'') = Inr ''% Query'' \<and>
   (k \<noteq> ''euclideanDistance'' \<longrightarrow>
      getClusterMetricName shortName (drift k) = Inl (UnreachableMetricVariant k)) \<and>
   (k \<noteq> ''queryDistance'' \<longrightarrow>
      getClusterMetricName shortName (retrieval k) = Inl (UnreachableMetricVariant k)) \<and>
   getClusterMetricName shortName (otherMetricType t) = Inl (UnreachableMetricVariant t) \<and>
   (getClusterMetricName shortName m = Inr label \<longrightarrow>
      (\<exists>d. m = dataQuality d) \<or> m = drift ''euclideanDistance'' \<or>
      (\<exists>k. m = performance k) \<or> m = retrieval ''queryDistance'')"
  by (cases m) (simp_all add: assertUnreachable_def)

text \<open>The theorem at a drift metric the page does not handle.\<close>

theorem getClusterMetricName_labels_witness:
  "getClusterMetricName (\<lambda>k. Inr (''short '' @ k)) (drift ''manhattanDistance'') =
     Inl (UnreachableMetricVariant ''manhattanDistance'') \<and>
   getClusterMetricName (\<lambda>k. Inr (''short '' @ k)) (dataQuality \<lparr>dimension_name = ''age''\<rparr>) =
     Inr ''age avg'' \<and>
   getClusterMetricName (\<lambda>k. Inr (''short '' @ k)) (performance ''manhattanDistance'') =
     Inr ''short manhattanDistance''"
  using getClusterMetricName_labels
    [of "\<lambda>k. Inr (''short '' @ k)" "\<lparr>dimension_name = ''age''\<rparr>" "''manhattanDistance''"]
  by simp

section \<open>The colour mode\<close>

lemma colorMode_onTabChange:
  "colorMode (onTabChange key st) =
     (if key = ''configuration'' then highlightColorMode else defaultColorMode)"
  by (simp add: onTabChange_def setClusterColorMode_def)

lemma onTabChange_idem: "onTabChange key (onTabChange key st) = onTabChange key st"
  by (simp add: onTabChange_def setClusterColorMode_def)

text \<open>
  Claim C8. After any sequence of tab changes, the colour mode is \<open>highlight\<close> if and only
  if the last of them selected the tab \<^verbatim>\<open>configuration\<close>, and \<open>default\<close> otherwise: from
  any store when there is a last tab change, and from the initial store also when there
  is none. Handling the same tab change twice is handling it once.
\<close>

theorem colorMode_follows_last_tab:
  "(keys \<noteq> [] \<longrightarrow>
      (colorMode (fold onTabChange keys st) = highlightColorMode
         \<longleftrightarrow> last keys = ''configuration'') \<and>
      (colorMode (fold onTabChange keys st) = defaultColorMode
         \<longleftrightarrow> last keys \<noteq> ''configuration'')) \<and>
   (colorMode (fold onTabChange keys (initialPointCloudState m u h)) = highlightColorMode
      \<longleftrightarrow> keys \<noteq> [] \<and> last keys = ''configuration'') \<and>
   onTabChange key (onTabChange key st) = onTabChange key st"
proof -
  have last_tab: "colorMode (fold onTabChange (ks @ [k]) st') =
      (if k = ''configuration'' then highlightColorMode else defaultColorMode)" for ks k st'
    by (simp add: colorMode_onTabChange)
  have nonempty: "(colorMode (fold onTabChange keys st') = highlightColorMode
         \<longleftrightarrow> last keys = ''configuration'') \<and>
      (colorMode (fold onTabChange keys st') = defaultColorMode
         \<longleftrightarrow> last keys \<noteq> ''configuration'')" if "keys \<noteq> []" for st'
  proof -
    from that obtain ks k where keys: "keys = ks @ [k]"
      by (cases keys rule: rev_cases) auto
    show ?thesis
      unfolding keys last_tab by simp
  qed
  have initial: "colorMode (fold onTabChange keys (initialPointCloudState m u h)) = highlightColorMode
      \<longleftrightarrow> keys \<noteq> [] \<and> last keys = ''configuration''"
  proof (cases "keys = []")
    case True
    then show ?thesis by (simp add: initialPointCloudState_def)
  next
    case False
    with nonempty [OF False] show ?thesis by simp
  qed
  from nonempty initial show ?thesis
    by (simp add: onTabChange_idem)
qed

text \<open>The theorem at three tab changes.\<close>

theorem colorMode_follows_last_tab_witness:
  "colorMode (fold onTabChange [''configuration'', ''clusters'', ''configuration'']
     (initialPointCloudState (drift ''euclideanDistance'')
        \<lparr>umap_minDist = 0, umap_nNeighbors = 30, umap_nSamples = 500\<rparr>
        \<lparr>hdbscan_minClusterSize = 10, hdbscan_clusterMinSamples = 1,
         hdbscan_clusterSelectionEpsilon = 0\<rparr>)) = highlightColorMode"
proof -
  have ne: "[''configuration'', ''clusters'', ''configuration''] \<noteq> []" by simp
  with colorMode_follows_last_tab
    [where keys = "[''configuration'', ''clusters'', ''configuration'']"]
  show ?thesis by simp
qed

section \<open>The selection of a cluster\<close>

text \<open>
  Claim C6, as amended. A click on a cluster that is not selected sets \<open>selectedClusterId\<close>
  to its id and \<open>selectedEventIds\<close> to the set of its event ids; a click on the selected
  cluster sets them to null and the empty set; no other field of the store changes. Two
  clicks on a cluster that was not selected end in the empty selection, and two clicks on
  the selected cluster end in that cluster selected with all its events: the selection
  before the clicks is restored when it was empty, or was the cluster with exactly its
  events.
\<close>

theorem cluster_click_toggles:
  "(selectedClusterId st \<noteq> Some (cluster_id c) \<longrightarrow>
      ClusterItem_onClick c st =
        st\<lparr>selectedClusterId := Some (cluster_id c), selectedEventIds := set (eventIds c)\<rparr> \<and>
      ClusterItem_onClick c (ClusterItem_onClick c st) =
        st\<lparr>selectedClusterId := None, selectedEventIds := {}\<rparr>) \<and>
   (selectedClusterId st = Some (cluster_id c) \<longrightarrow>
      ClusterItem_onClick c st = st\<lparr>selectedClusterId := None, selectedEventIds := {}\<rparr> \<and>
      ClusterItem_onClick c (ClusterItem_onClick c st) =
        st\<lparr>selectedClusterId := Some (cluster_id c), selectedEventIds := set (eventIds c)\<rparr>) \<and>
   (selectedClusterId st = None \<and> selectedEventIds st = {} \<longrightarrow>
      ClusterItem_onClick c (ClusterItem_onClick c st) = st) \<and>
   (selectedClusterId st = Some (cluster_id c) \<and> selectedEventIds st = set (eventIds c) \<longrightarrow>
      ClusterItem_onClick c (ClusterItem_onClick c st) = st)"
  by (auto simp: ClusterItem_onClick_def setSelectedClusterId_def setSelectedEventIds_def)

text \<open>The theorem at the empty store and a cluster that lists an event twice.\<close>

theorem cluster_click_toggles_witness:
  "selectedEventIds
     (ClusterItem_onClick
        \<lparr>cluster_id = ''c1'', eventIds = [''e1'', ''e1'', ''e2''], driftRatio = None,
         primaryToCorpusRatio = None, dataQualityMetric = None,
         performanceMetric_values = None\<rparr>
        (initialPointCloudState (drift ''euclideanDistance'')
           \<lparr>umap_minDist = 0, umap_nNeighbors = 30, umap_nSamples = 500\<rparr>
           \<lparr>hdbscan_minClusterSize = 10, hdbscan_clusterMinSamples = 1,
            hdbscan_clusterSelectionEpsilon = 0\<rparr>)) = {''e1'', ''e2''} \<and>
   ClusterItem_onClick
     \<lparr>cluster_id = ''c1'', eventIds = [''e1'', ''e1'', ''e2''], driftRatio = None,
      primaryToCorpusRatio = None, dataQualityMetric = None,
      performanceMetric_values = None\<rparr>
     (ClusterItem_onClick
        \<lparr>cluster_id = ''c1'', eventIds = [''e1'', ''e1'', ''e2''], driftRatio = None,
         primaryToCorpusRatio = None, dataQualityMetric = None,
         performanceMetric_values = None\<rparr>
        (initialPointCloudState (drift ''euclideanDistance'')
           \<lparr>umap_minDist = 0, umap_nNeighbors = 30, umap_nSamples = 500\<rparr>
           \<lparr>hdbscan_minClusterSize = 10, hdbscan_clusterMinSamples = 1,
            hdbscan_clusterSelectionEpsilon = 0\<rparr>))
   = initialPointCloudState (drift ''euclideanDistance'')
           \<lparr>umap_minDist = 0, umap_nNeighbors = 30, umap_nSamples = 500\<rparr>
           \<lparr>hdbscan_minClusterSize = 10, hdbscan_clusterMinSamples = 1,
            hdbscan_clusterSelectionEpsilon = 0\<rparr>"
  (is "selectedEventIds (ClusterItem_onClick ?c ?st) = _ \<and> _")
proof -
  have unselected: "selectedClusterId ?st \<noteq> Some (cluster_id ?c)"
    by (simp add: initialPointCloudState_def)
  have empty: "selectedClusterId ?st = None \<and> selectedEventIds ?st = {}"
    by (simp add: initialPointCloudState_def)
  from cluster_click_toggles [of ?st ?c] unselected
  have "ClusterItem_onClick ?c ?st =
        ?st\<lparr>selectedClusterId := Some (cluster_id ?c), selectedEventIds := set (eventIds ?c)\<rparr>"
    by blast
  then have one: "selectedEventIds (ClusterItem_onClick ?c ?st) = {''e1'', ''e2''}"
    by simp
  from cluster_click_toggles [of ?st ?c] empty
  have two: "ClusterItem_onClick ?c (ClusterItem_onClick ?c ?st) = ?st"
    by blast
  from one two show ?thesis by (rule conjI)
qed

text \<open>
  Claim C6 as stated fails: with another cluster selected, two clicks on a cluster end in
  the empty selection and not in the selection before them.
\<close>

theorem two_clicks_identity_counterexample:
  "selectedClusterId
     (ClusterItem_onClick
        \<lparr>cluster_id = ''c1'', eventIds = [''e1'', ''e2''], driftRatio = None,
         primaryToCorpusRatio = None, dataQualityMetric = None,
         performanceMetric_values = None\<rparr>
        (ClusterItem_onClick
           \<lparr>cluster_id = ''c1'', eventIds = [''e1'', ''e2''], driftRatio = None,
            primaryToCorpusRatio = None, dataQualityMetric = None,
            performanceMetric_values = None\<rparr>
           ((initialPointCloudState (drift ''euclideanDistance'')
               \<lparr>umap_minDist = 0, umap_nNeighbors = 30, umap_nSamples = 500\<rparr>
               \<lparr>hdbscan_minClusterSize = 10, hdbscan_clusterMinSamples = 1,
                hdbscan_clusterSelectionEpsilon = 0\<rparr>)
            \<lparr>selectedClusterId := Some ''c2'', selectedEventIds := {''e3''}\<rparr>))) = None \<and>
   selectedClusterId
     ((initialPointCloudState (drift ''euclideanDistance'')
         \<lparr>umap_minDist = 0, umap_nNeighbors = 30, umap_nSamples = 500\<rparr>
         \<lparr>hdbscan_minClusterSize = 10, hdbscan_clusterMinSamples = 1,
          hdbscan_clusterSelectionEpsilon = 0\<rparr>)
      \<lparr>selectedClusterId := Some ''c2'', selectedEventIds := {''e3''}\<rparr>) = Some ''c2''"
  by (simp add: ClusterItem_onClick_def setSelectedClusterId_def setSelectedEventIds_def
      initialPointCloudState_def)

section \<open>The request lifecycle\<close>

lemma store_disposeQuery: "store (disposeQuery s) = store s"
  by (simp add: disposeQuery_def split: option.splits)

lemma issued_disposeQuery: "issued (disposeQuery s) = issued s"
  by (simp add: disposeQuery_def split: option.splits)

lemma queryReference_disposeQuery: "queryReference (disposeQuery s) = None"
  by (simp add: disposeQuery_def split: option.splits)

lemma disposed_disposeQuery:
  "set (disposed (disposeQuery s)) = set (disposed s) \<union> set_option (queryReference s)"
  by (simp add: disposeQuery_def split: option.splits)

lemma store_loadQuery: "store (loadQuery v s) = store s"
  by (simp add: loadQuery_def Let_def store_disposeQuery)

lemma issued_loadQuery: "issued (loadQuery v s) = issued s @ [v]"
  by (simp add: loadQuery_def Let_def issued_disposeQuery)

lemma queryReference_loadQuery: "queryReference (loadQuery v s) = Some (length (issued s))"
  by (simp add: loadQuery_def Let_def issued_disposeQuery)

lemma disposed_loadQuery:
  "set (disposed (loadQuery v s)) = set (disposed s) \<union> set_option (queryReference s)"
  by (simp add: loadQuery_def Let_def disposed_disposeQuery)

lemma EmbeddingMain_effect_eq:
  "EmbeddingMain_effect i t s =
     loadQuery
       (umapQueryVariables i t (umapParameters (store s)) (clusteringParameters (store s))
          (metric (store s)))
       (s\<lparr>store := setLoading True (reset (store s))\<rparr>)"
  by (simp add: EmbeddingMain_effect_def Let_def getMetric_def getHDSCANParameters_def
      setLoading_def reset_def)

lemma Requery_fields:
  "store (EmbeddingMain_effect i t (EmbeddingMain_cleanup s)) = setLoading True (reset (store s))"
  "queryReference (EmbeddingMain_effect i t (EmbeddingMain_cleanup s)) = Some (length (issued s))"
  "issued (EmbeddingMain_effect i t (EmbeddingMain_cleanup s)) =
     issued s @ [umapQueryVariables i t (umapParameters (store s))
                   (clusteringParameters (store s)) (metric (store s))]"
  "set (disposed (EmbeddingMain_effect i t (EmbeddingMain_cleanup s))) =
     set (disposed s) \<union> set_option (queryReference s)"
  by (simp_all add: EmbeddingMain_effect_eq EmbeddingMain_cleanup_def store_loadQuery
      queryReference_loadQuery issued_loadQuery disposed_loadQuery store_disposeQuery
      issued_disposeQuery queryReference_disposeQuery disposed_disposeQuery)

lemma Teardown_fields:
  "store (EmbeddingMain_cleanup s) = store s"
  "queryReference (EmbeddingMain_cleanup s) = None"
  "issued (EmbeddingMain_cleanup s) = issued s"
  "set (disposed (EmbeddingMain_cleanup s)) = set (disposed s) \<union> set_option (queryReference s)"
  by (simp_all add: EmbeddingMain_cleanup_def store_disposeQuery queryReference_disposeQuery
      issued_disposeQuery disposed_disposeQuery)

lemma run_Nil: "run h s [] = s"
  by (simp add: run_def)

lemma run_Cons: "run h s (e # evs) = run h (step h e s) evs"
  by (simp add: run_def)

lemma step_Requery_Inr:
  "EmbeddingMain_timeRange h (EmbeddingMain_endTime h sel pe) = Inr tr \<Longrightarrow>
   step h (Requery i sel pe) s = EmbeddingMain_effect i tr (EmbeddingMain_cleanup s)"
  by simp


lemma timeRange_Inr_iff:
  "EmbeddingMain_timeRange h d = Inr tr \<longleftrightarrow>
     (\<exists>e s. d = Some e \<and> subDays h (Some e) 2 = Some s \<and>
            tr = \<lparr>tr_start = isoFormat s, tr_end = isoFormat e\<rparr>)"
  by (cases d; cases "subDays h d 2")
     (auto simp: EmbeddingMain_timeRange_def toISOString_def subDays_def addDays_def)

lemma subDays_two:
  "subDays h (Some e) 2 = Some s \<longleftrightarrow>
     \<bar>UTC h (LocalTime h e - 2 * msPerDay)\<bar> \<le> 8640000000000000 \<and>
     s = UTC h (LocalTime h e - 2 * msPerDay)"
  by (auto simp: subDays_def addDays_def TimeClip_def)

lemma step_issued_mono: "length (issued s) \<le> length (issued (step h e s))"
  by (cases e) (simp_all add: Requery_fields Teardown_fields split: sum.splits)

lemma step_queryReference:
  "queryReference (step h e s) = Some r \<Longrightarrow> queryReference s = Some r \<or> r = length (issued s)"
  by (cases e) (auto simp: Requery_fields Teardown_fields split: sum.splits if_splits)

lemma step_not_before:
  assumes "n \<le> length (issued s)" and "\<forall>r. queryReference s = Some r \<longrightarrow> n \<le> r"
  shows "n \<le> length (issued (step h e s)) \<and>
         (\<forall>r. queryReference (step h e s) = Some r \<longrightarrow> n \<le> r)"
  using assms step_issued_mono [of s h e] step_queryReference [of h e s]
  by (metis le_trans)

lemma run_not_before:
  "n \<le> length (issued s) \<Longrightarrow> \<forall>r. queryReference s = Some r \<longrightarrow> n \<le> r \<Longrightarrow>
   n \<le> length (issued (run h s evs)) \<and> (\<forall>r. queryReference (run h s evs) = Some r \<longrightarrow> n \<le> r)"
proof (induction evs arbitrary: s)
  case Nil
  then show ?case by (simp add: run_Nil)
next
  case (Cons e evs)
  from step_not_before [OF Cons.prems, of h e]
  have "n \<le> length (issued (step h e s))"
    and "\<forall>r. queryReference (step h e s) = Some r \<longrightarrow> n \<le> r"
    by blast+
  then show ?case
    unfolding run_Cons by (rule Cons.IH)
qed

lemma run_issued_mono: "length (issued s) \<le> length (issued (run h s evs))"
proof (induction evs arbitrary: s)
  case Nil
  then show ?case by (simp add: run_Nil)
next
  case (Cons e evs)
  from step_issued_mono [of s h e] Cons.IH [of "step h e s"] show ?case
    unfolding run_Cons by (rule le_trans)
qed

lemma step_current_or_disposed:
  assumes "current_or_disposed s"
  shows "current_or_disposed (step h e s)"
proof (cases e)
  case (Requery i sel pe)
  with assms show ?thesis
    unfolding current_or_disposed_def
    by (auto simp: Requery_fields less_Suc_eq split: sum.splits)
next
  case Teardown
  with assms show ?thesis
    unfolding current_or_disposed_def by (auto simp: Teardown_fields)
qed (use assms in \<open>auto simp: current_or_disposed_def split: sum.splits\<close>)

lemma run_current_or_disposed:
  "current_or_disposed s \<Longrightarrow> current_or_disposed (run h s evs)"
  by (induction evs arbitrary: s) (simp_all add: run_Nil run_Cons step_current_or_disposed)

lemma initialPage_current_or_disposed: "current_or_disposed (initialPage st)"
  by (simp add: current_or_disposed_def initialPage_def)

text \<open>
  Claim C7. Whatever the selection and the highlight were, a re-query, the cleanup and
  then the effect, first resets the store, so that \<open>selectedClusterId\<close>, \<open>selectedEventIds\<close>
  and \<open>highlightedClusterId\<close> are null, empty and null in the store with which the new
  request is issued, and they are so when the re-query is done. A render whose time range
  is computed is such a re-query, and a render whose time range throws issues no request.
\<close>

theorem requery_resets_selection:
  "EmbeddingMain_effect i t s =
     loadQuery
       (umapQueryVariables i t (umapParameters (store s)) (clusteringParameters (store s))
          (metric (store s)))
       (s\<lparr>store := setLoading True (reset (store s))\<rparr>) \<and>
   selectedClusterId (setLoading True (reset (store s))) = None \<and>
   selectedEventIds (setLoading True (reset (store s))) = {} \<and>
   highlightedClusterId (setLoading True (reset (store s))) = None \<and>
   selectedClusterId (store (EmbeddingMain_effect i t (EmbeddingMain_cleanup s))) = None \<and>
   selectedEventIds (store (EmbeddingMain_effect i t (EmbeddingMain_cleanup s))) = {} \<and>
   highlightedClusterId (store (EmbeddingMain_effect i t (EmbeddingMain_cleanup s))) = None \<and>
   queryReference (EmbeddingMain_effect i t (EmbeddingMain_cleanup s)) = Some (length (issued s)) \<and>
   length (issued (EmbeddingMain_effect i t (EmbeddingMain_cleanup s))) = Suc (length (issued s)) \<and>
   (EmbeddingMain_timeRange h (EmbeddingMain_endTime h sel pe) = Inr tr \<longrightarrow>
      step h (Requery i sel pe) s = EmbeddingMain_effect i tr (EmbeddingMain_cleanup s)) \<and>
   (EmbeddingMain_timeRange h (EmbeddingMain_endTime h sel pe) = Inl e \<longrightarrow>
      step h (Requery i sel pe) s = s)"
proof -
  have prepared:
    "selectedClusterId (setLoading True (reset (store s))) = None"
    "selectedEventIds (setLoading True (reset (store s))) = {}"
    "highlightedClusterId (setLoading True (reset (store s))) = None"
    by (simp_all add: setLoading_def reset_def)
  then show ?thesis
    by (simp add: Requery_fields EmbeddingMain_effect_eq [symmetric])
qed

text \<open>
  The theorem at a store with a cluster selected and another highlighted, on a host in
  UTC, with no timestamp selected and the primary inferences ending on 3 January 2024.
\<close>

theorem requery_resets_selection_witness:
  "selectedClusterId (store (step
     \<lparr>LocalTZA_utc = \<lambda>t. 0, LocalTZA_local = \<lambda>t. 0,
      newDate = \<lambda>s. if s = ''2024-01-03T00:00:00Z'' then Some 1704240000000 else None\<rparr>
     (Requery ''dim'' None ''2024-01-03T00:00:00Z'')
     (initialPage
        ((initialPointCloudState (drift ''euclideanDistance'')
            \<lparr>umap_minDist = 0, umap_nNeighbors = 30, umap_nSamples = 500\<rparr>
            \<lparr>hdbscan_minClusterSize = 10, hdbscan_clusterMinSamples = 1,
             hdbscan_clusterSelectionEpsilon = 0\<rparr>)
         \<lparr>selectedClusterId := Some ''c1'', selectedEventIds := {''e1''},
          highlightedClusterId := Some ''c2''\<rparr>)))) = None"
  (is "selectedClusterId (store (step ?h (Requery ?i ?sel ?pe) ?s)) = None")
proof -
  let ?tr = "\<lparr>tr_start = isoFormat 1704067200000, tr_end = isoFormat 1704240000000\<rparr>"
  have tr: "EmbeddingMain_timeRange ?h (EmbeddingMain_endTime ?h ?sel ?pe) = Inr ?tr"
    by (simp add: timeRange_Inr_iff subDays_two EmbeddingMain_endTime_def UTC_def LocalTime_def
        msPerDay_def)
  from requery_resets_selection [where h = ?h and sel = ?sel and pe = ?pe and tr = ?tr
      and i = ?i and t = ?tr and s = ?s] tr
  have "step ?h (Requery ?i ?sel ?pe) ?s = EmbeddingMain_effect ?i ?tr (EmbeddingMain_cleanup ?s)"
    and "selectedClusterId (store (EmbeddingMain_effect ?i ?tr (EmbeddingMain_cleanup ?s))) = None"
    by blast+
  then show ?thesis by (simp only:)
qed

section \<open>The time range of a request\<close>




section \<open>Loading and the outcome of a request\<close>




section \<open>The response of a disposed request\<close>

text \<open>
  Claim C5. Let request A be issued at any point of a session, and request B later. Then
  A is disposed of by the cleanup that precedes the effect issuing B, B is another request
  than A, and whenever afterwards the response of A arrives, or its failure, the page with
  its store is left as it is: what the store holds for B, populated or pending, stays.
\<close>

theorem disposed_response_never_written:
  assumes "EmbeddingMain_timeRange h (EmbeddingMain_endTime h selA peA) = Inr trA"
    and "EmbeddingMain_timeRange h (EmbeddingMain_endTime h selB peB) = Inr trB"
  shows
  "let s0 = run h (initialPage st) pre;
       a = length (issued s0);
       s1 = step h (Requery iA selA peA) s0;
       s2 = run h s1 mid;
       s3 = step h (Requery iB selB peB) s2;
       s4 = run h s3 post
   in queryReference s1 = Some a \<and>
      a \<in> set (disposed (EmbeddingMain_cleanup s2)) \<and>
      queryReference (EmbeddingMain_cleanup s2) = None \<and>
      s3 = EmbeddingMain_effect iB trB (EmbeddingMain_cleanup s2) \<and>
      queryReference s3 = Some (length (issued s2)) \<and>
      a < length (issued s2) \<and>
      queryReference s4 \<noteq> Some a \<and>
      step h (ResponseArrives a data) s4 = s4 \<and>
      store (step h (ResponseArrives a data) s4) = store s4 \<and>
      step h (RequestFails a msg) s4 = s4"
proof -
  define s0 where "s0 = run h (initialPage st) pre"
  define a where "a = length (issued s0)"
  define s1 where "s1 = step h (Requery iA selA peA) s0"
  define s2 where "s2 = run h s1 mid"
  define s3 where "s3 = step h (Requery iB selB peB) s2"
  define s4 where "s4 = run h s3 post"
  have s1_eq: "s1 = EmbeddingMain_effect iA trA (EmbeddingMain_cleanup s0)"
    unfolding s1_def using assms(1) by (rule step_Requery_Inr)
  have s3_eq: "s3 = EmbeddingMain_effect iB trB (EmbeddingMain_cleanup s2)"
    unfolding s3_def using assms(2) by (rule step_Requery_Inr)
  have ref1: "queryReference s1 = Some a" and len1: "length (issued s1) = Suc a"
    by (simp_all add: s1_eq a_def Requery_fields)
  have a2: "a < length (issued s2)"
    using run_issued_mono [of s1 h mid] len1 by (simp add: s2_def)
  have "current_or_disposed s2"
    unfolding s2_def s1_def s0_def
    by (intro run_current_or_disposed step_current_or_disposed initialPage_current_or_disposed)
  with a2 have "queryReference s2 = Some a \<or> a \<in> set (disposed s2)"
    by (simp add: current_or_disposed_def)
  then have disp: "a \<in> set (disposed (EmbeddingMain_cleanup s2))"
    by (auto simp: Teardown_fields)
  have none: "queryReference (EmbeddingMain_cleanup s2) = None"
    by (simp add: Teardown_fields)
  have ref3: "queryReference s3 = Some (length (issued s2))"
    and len3: "length (issued s3) = Suc (length (issued s2))"
    by (simp_all add: s3_eq Requery_fields)
  have "Suc a \<le> length (issued s3)" "\<forall>r. queryReference s3 = Some r \<longrightarrow> Suc a \<le> r"
    using a2 ref3 len3 by simp_all
  from run_not_before [OF this, of h post]
  have "\<forall>r. queryReference s4 = Some r \<longrightarrow> Suc a \<le> r"
    by (simp add: s4_def)
  then have ref4: "queryReference s4 \<noteq> Some a"
    by auto
  then have late: "step h (ResponseArrives a data) s4 = s4" "step h (RequestFails a msg) s4 = s4"
    by simp_all
  from ref1 disp none s3_eq ref3 a2 ref4 late show ?thesis
    unfolding Let_def s4_def [symmetric] s3_def [symmetric] s2_def [symmetric]
      s1_def [symmetric] a_def [symmetric] s0_def [symmetric]
    by simp
qed

text \<open>
  The theorem at a session, on a host in UTC, that issues A and then B and receives the
  response of B and then that of A: the store is the one populated for B.
\<close>

theorem disposed_response_never_written_witness:
  "store (run
     \<lparr>LocalTZA_utc = \<lambda>t. 0, LocalTZA_local = \<lambda>t. 0,
      newDate = \<lambda>s. if s = ''2024-01-03T00:00:00Z'' then Some 1704240000000 else None\<rparr>
     (initialPage
        (initialPointCloudState (drift ''euclideanDistance'')
           \<lparr>umap_minDist = 0, umap_nNeighbors = 30, umap_nSamples = 500\<rparr>
           \<lparr>hdbscan_minClusterSize = 10, hdbscan_clusterMinSamples = 1,
            hdbscan_clusterSelectionEpsilon = 0\<rparr>))
     [Requery ''dim'' None ''2024-01-03T00:00:00Z'',
      Requery ''dim'' (Some (Some 1704153600000)) ''2024-01-03T00:00:00Z'',
      ResponseArrives 1 \<lparr>embedding = None\<rparr>,
      ResponseArrives 0
        \<lparr>embedding = Some \<lparr>UMAPPoints = Some
           \<lparr>umap_data =
              [\<lparr>point_id = ''p1'', eventId = ''e1'', coordinates = Point3D 1 2 3,
                embeddingMetadata = \<lparr>linkToData = None, rawData = None\<rparr>,
                eventMetadata = \<lparr>predictionId = None, predictionLabel = None,
                                 actualLabel = None, predictionScore = None,
                                 actualScore = None\<rparr>\<rparr>],
            referenceData = [], corpusData = [], umap_clusters = [],
            contextRetrievals = []\<rparr>\<rparr>\<rparr>])
   = store (run
     \<lparr>LocalTZA_utc = \<lambda>t. 0, LocalTZA_local = \<lambda>t. 0,
      newDate = \<lambda>s. if s = ''2024-01-03T00:00:00Z'' then Some 1704240000000 else None\<rparr>
     (initialPage
        (initialPointCloudState (drift ''euclideanDistance'')
           \<lparr>umap_minDist = 0, umap_nNeighbors = 30, umap_nSamples = 500\<rparr>
           \<lparr>hdbscan_minClusterSize = 10, hdbscan_clusterMinSamples = 1,
            hdbscan_clusterSelectionEpsilon = 0\<rparr>))
     [Requery ''dim'' None ''2024-01-03T00:00:00Z'',
      Requery ''dim'' (Some (Some 1704153600000)) ''2024-01-03T00:00:00Z'',
      ResponseArrives 1 \<lparr>embedding = None\<rparr>])"
  (is "store (run ?h (initialPage ?st)
         [Requery ?iA ?selA ?peA, Requery ?iB ?selB ?peB, ?respB, ResponseArrives 0 ?dA])
       = store (run ?h (initialPage ?st) [Requery ?iA ?selA ?peA, Requery ?iB ?selB ?peB, ?respB])")
proof -
  have trA: "EmbeddingMain_timeRange ?h (EmbeddingMain_endTime ?h ?selA ?peA)
      = Inr \<lparr>tr_start = isoFormat 1704067200000, tr_end = isoFormat 1704240000000\<rparr>"
    by (simp add: timeRange_Inr_iff subDays_two EmbeddingMain_endTime_def UTC_def LocalTime_def
        msPerDay_def)
  have trB: "EmbeddingMain_timeRange ?h (EmbeddingMain_endTime ?h ?selB ?peB)
      = Inr \<lparr>tr_start = isoFormat 1703980800000, tr_end = isoFormat 1704153600000\<rparr>"
    by (simp add: timeRange_Inr_iff subDays_two EmbeddingMain_endTime_def UTC_def LocalTime_def
        msPerDay_def)
  have a: "length (issued (run ?h (initialPage ?st) [])) = 0"
    by (simp add: run_Nil initialPage_def)
  from disposed_response_never_written
    [OF trA trB, where st = ?st and pre = "[]" and iA = ?iA and mid = "[]"
       and iB = ?iB and post = "[?respB]" and data = ?dA, unfolded Let_def a]
  have "store (step ?h (ResponseArrives 0 ?dA)
          (run ?h (step ?h (Requery ?iB ?selB ?peB)
             (run ?h (step ?h (Requery ?iA ?selA ?peA) (run ?h (initialPage ?st) [])) []))
             [?respB]))
        = store (run ?h (step ?h (Requery ?iB ?selB ?peB)
             (run ?h (step ?h (Requery ?iA ?selA ?peA) (run ?h (initialPage ?st) [])) []))
             [?respB])"
    by blast
  then show ?thesis
    unfolding run_Cons run_Nil .
qed

end
